theory Spec2Isabelle
  imports Main "HOL-Library.Word"
begin

section \<open>Data model (api/v1alpha1/build_types.go)\<close>

text \<open>
  \<^verbatim>\<open>metav1.Time\<close> is kept abstract: a point in time is a number of seconds. A Go
  pointer that may be nil (\<^verbatim>\<open>*CallbackSpec\<close>, \<^verbatim>\<open>*metav1.Time\<close>) is an \<open>option\<close>.
\<close>

type_synonym Time = nat

record CallbackSpec =
  URL :: string
  AuthToken :: string

record BuildSpec =
  ContextUrl :: string
  Revision :: string
  Dockerfile :: string
  OutputImage :: string
  PushSecret :: string
  Callback :: "CallbackSpec option"

text \<open>\<^verbatim>\<open>type BuildPhase string\<close>: any string is a value of the type; the zero value is
  the empty string, which is the phase of a freshly submitted Build.\<close>

type_synonym BuildPhase = string

definition BuildPhasePending :: BuildPhase where
  "BuildPhasePending = ''Pending''"

definition BuildPhaseRunning :: BuildPhase where
  "BuildPhaseRunning = ''Running''"

definition BuildPhaseSucceeded :: BuildPhase where
  "BuildPhaseSucceeded = ''Succeeded''"

definition BuildPhaseFailed :: BuildPhase where
  "BuildPhaseFailed = ''Failed''"

record BuildStatus =
  Phase :: BuildPhase
  JobRef :: string
  CallbackStatus :: string
  CompletionTime :: "Time option"

text \<open>Of \<^verbatim>\<open>metav1.ObjectMeta\<close> the controller reads the name, the namespace and
  (through the owner reference) the UID.\<close>

record Build =
  Name :: string
  Namespace :: string
  UID :: string
  Spec :: BuildSpec
  Status :: BuildStatus

section \<open>The execution job (the part of batchv1.Job the controller writes or reads)\<close>

record VolumeMount =
  MountName :: string
  MountPath :: string
  SubPath :: string
  ReadOnly :: bool

record EnvVar =
  EnvName :: string
  EnvValue :: string

record SecurityContext =
  Privileged :: "bool option"

record Container =
  ContainerName :: string
  Image :: string
  Command :: "string list"
  SecurityCtx :: "SecurityContext option"
  Env :: "EnvVar list"
  VolumeMounts :: "VolumeMount list"
  WorkingDir :: string

datatype VolumeSource = EmptyDir | Secret string

record Volume =
  VolumeName :: string
  Source :: VolumeSource

record PodSpec =
  RestartPolicy :: string
  InitContainers :: "Container list"
  Containers :: "Container list"
  Volumes :: "Volume list"

record OwnerReference =
  APIVersion :: string
  Kind :: string
  OwnerName :: string
  OwnerUID :: string
  Controller :: "bool option"
  BlockOwnerDeletion :: "bool option"

text \<open>\<^verbatim>\<open>JobStatus.Succeeded\<close> and \<^verbatim>\<open>JobStatus.Failed\<close> are \<^verbatim>\<open>int32\<close>; the controller
  only compares them with zero (signed).\<close>

record JobStatus =
  Succeeded :: "32 word"
  Failed :: "32 word"
  JobCompletionTime :: "Time option"

record Job =
  JobName :: string
  JobNamespace :: string
  OwnerReferences :: "OwnerReference list"
  Template :: PodSpec
  JStatus :: JobStatus

section \<open>Errors\<close>

datatype error =
    ErrNotFound
  | ErrAlreadyExists
  | ErrStore string
  | ErrScheme
  | ErrPanic string
  | ErrMarshal string
  | ErrNewRequest string
  | ErrTransport string
  | ErrStatusCode int

fun IsNotFound :: "error \<Rightarrow> bool" where
  "IsNotFound ErrNotFound = True"
| "IsNotFound _ = False"

section \<open>The Job Builder (constructJob)\<close>

text \<open>
  \<^verbatim>\<open>controllerutil.SetControllerReference(owner, controlled, scheme)\<close> belongs to the
  controller-runtime library. What the controller relies on: the scheme is asked for the
  group/version/kind of the owner's type and the call fails when the type is not
  registered; otherwise one owner reference naming the owner (name, UID), with
  \<^verbatim>\<open>Controller\<close> and \<^verbatim>\<open>BlockOwnerDeletion\<close> set, is stored on the controlled object.
  The scheme is a parameter: \<open>Some (apiVersion, kind)\<close> when the Build type is
  registered. The freshly constructed job has no owner and lives in the owner's
  namespace, so the library's other checks cannot fail here.
\<close>

type_synonym Scheme = "(string \<times> string) option"

definition SetControllerReference :: "Build \<Rightarrow> Job \<Rightarrow> Scheme \<Rightarrow> error + Job" where
  "SetControllerReference owner controlled scheme =
     (case scheme of
        None \<Rightarrow> Inl ErrScheme
      | Some (apiVersion, kind) \<Rightarrow>
          Inr (controlled\<lparr>OwnerReferences :=
                 [\<lparr>APIVersion = apiVersion, Kind = kind, OwnerName = Name owner,
                   OwnerUID = UID owner, Controller = Some True,
                   BlockOwnerDeletion = Some True\<rparr>]\<rparr>))"

definition nl :: string where
  "nl = [CHR 0x0A]"

definition dq :: string where
  "dq = [CHR 0x22]"

text \<open>\<^verbatim>\<open>fmt.Sprintf("build-%s", build.Name)\<close>.\<close>

definition jobNameOf :: "Build \<Rightarrow> string" where
  "jobNameOf build = ''build-'' @ Name build"

text \<open>The \<^verbatim>\<open>fmt.Sprintf\<close> of the build script, its five \<^verbatim>\<open>%s\<close> filled in order with
  OutputImage, ContextUrl, dockerfile, OutputImage, OutputImage.\<close>

definition buildScript :: "string \<Rightarrow> string \<Rightarrow> string \<Rightarrow> string" where
  "buildScript outputImage contextUrl dockerfile =
     nl @ ''set -e'' @ nl @
     ''echo '' @ dq @ ''Building image '' @ outputImage @ '' from '' @ contextUrl @ ''...'' @ dq @ nl @
     ''buildah bud --storage-driver=vfs -f '' @ dockerfile @ '' -t '' @ outputImage @ '' .'' @ nl @
     ''echo '' @ dq @ ''Pushing image...'' @ dq @ nl @
     ''buildah push --storage-driver=vfs '' @ outputImage @ nl @
     ''echo '' @ dq @ ''Done!'' @ dq @ nl"

definition constructJob :: "Scheme \<Rightarrow> Build \<Rightarrow> error + Job" where
  "constructJob scheme build =
    (let jobName = jobNameOf build;
         privileged = True;
         revision = Revision (Spec build);
         revision = (if revision = '''' then ''master'' else revision);
         dockerfile = Dockerfile (Spec build);
         dockerfile = (if dockerfile = '''' then ''Dockerfile'' else dockerfile);
         script = buildScript (OutputImage (Spec build)) (ContextUrl (Spec build)) dockerfile;
         job = \<lparr>JobName = jobName, JobNamespace = Namespace build, OwnerReferences = [],
                Template = \<lparr>
                  RestartPolicy = ''Never'',
                  InitContainers = [
                    \<lparr>ContainerName = ''git-clone'', Image = ''alpine/git'',
                     Command = [''git'', ''clone'', ContextUrl (Spec build), ''/workspace''],
                     SecurityCtx = None, Env = [],
                     VolumeMounts = [
                       \<lparr>MountName = ''workspace'', MountPath = ''/workspace'',
                        SubPath = '''', ReadOnly = False\<rparr>],
                     WorkingDir = ''''\<rparr>],
                  Containers = [
                    \<lparr>ContainerName = ''buildah'', Image = ''quay.io/buildah/stable'',
                     Command = [''/bin/sh'', ''-c'', script],
                     SecurityCtx = Some \<lparr>Privileged = Some privileged\<rparr>,
                     Env = [\<lparr>EnvName = ''STORAGE_DRIVER'', EnvValue = ''vfs''\<rparr>],
                     VolumeMounts = [
                       \<lparr>MountName = ''workspace'', MountPath = ''/workspace'',
                        SubPath = '''', ReadOnly = False\<rparr>,
                       \<lparr>MountName = ''containers-storage'', MountPath = ''/var/lib/containers'',
                        SubPath = '''', ReadOnly = False\<rparr>],
                     WorkingDir = ''/workspace''\<rparr>],
                  Volumes = [
                    \<lparr>VolumeName = ''workspace'', Source = EmptyDir\<rparr>,
                    \<lparr>VolumeName = ''containers-storage'', Source = EmptyDir\<rparr>]\<rparr>,
                JStatus = \<lparr>Succeeded = 0, Failed = 0, JobCompletionTime = None\<rparr>\<rparr>
     in case (if PushSecret (Spec build) \<noteq> '''' then
                (case Containers (Template job) of
                   [] \<Rightarrow> Inl (ErrPanic ''index out of range'')
                 | c # cs \<Rightarrow>
                     Inr (job\<lparr>Template := (Template job)\<lparr>
                            Containers :=
                              c\<lparr>VolumeMounts := VolumeMounts c @
                                 [\<lparr>MountName = ''registry-auth'',
                                   MountPath = ''/root/.docker/config.json'',
                                   SubPath = ''.dockerconfigjson'', ReadOnly = True\<rparr>]\<rparr> # cs,
                            Volumes := Volumes (Template job) @
                              [\<lparr>VolumeName = ''registry-auth'',
                                Source = Secret (PushSecret (Spec build))\<rparr>]\<rparr>\<rparr>))
              else Inr job) of
          Inl e \<Rightarrow> Inl e
        | Inr job \<Rightarrow> SetControllerReference build job scheme)"

section \<open>The Callback Dispatcher (sendCallback)\<close>

datatype jvalue = JString string | JTime Time

text \<open>The request handed to \<^verbatim>\<open>client.Do\<close>, with the timeout of the \<^verbatim>\<open>http.Client\<close>
  that performs it (in seconds).\<close>

record HttpRequest =
  Method :: string
  ReqURL :: string
  Header :: "(string \<times> string) list"
  Body :: string
  ClientTimeout :: nat

text \<open>
  The Go standard library is outside the repository; what it answers is a parameter of
  the dispatcher: the result of \<^verbatim>\<open>json.Marshal\<close> on the payload, the error (if any)
  with which \<^verbatim>\<open>http.NewRequest\<close> rejects a method and URL, the result of
  \<^verbatim>\<open>client.Do\<close> (a transport error, which includes a timeout, or the status code of
  the response), and the clock read by \<^verbatim>\<open>time.Now()\<close>.
\<close>

record HttpEnv =
  jsonMarshal :: "(string \<times> jvalue) list \<Rightarrow> error + string"
  NewRequestErr :: "string \<Rightarrow> string \<Rightarrow> error option"
  clientDo :: "HttpRequest \<Rightarrow> error + int"
  callbackNow :: Time

text \<open>\<^verbatim>\<open>req.Header.Set(key, value)\<close> replaces the values stored under the key.\<close>

definition HeaderSet :: "string \<Rightarrow> string \<Rightarrow> (string \<times> string) list \<Rightarrow> (string \<times> string) list" where
  "HeaderSet k v h = filter (\<lambda>kv. fst kv \<noteq> k) h @ [(k, v)]"

text \<open>Lines 255 to 261: the payload, in the order the source lists its entries.\<close>

definition payload :: "HttpEnv \<Rightarrow> Build \<Rightarrow> BuildPhase \<Rightarrow> (string \<times> jvalue) list" where
  "payload henv build phase =
     [(''name'', JString (Name build)),
      (''namespace'', JString (Namespace build)),
      (''phase'', JString phase),
      (''image'', JString (OutputImage (Spec build))),
      (''timestamp'', JTime (callbackNow henv))]"

text \<open>
  The result is the returned error (\<open>None\<close> for \<^verbatim>\<open>nil\<close>) together with the requests that
  were handed to \<^verbatim>\<open>client.Do\<close>, in order. Reading \<^verbatim>\<open>build.Spec.Callback.URL\<close> through a
  nil \<^verbatim>\<open>Callback\<close> panics; the caller only dispatches when it is not nil.
\<close>

definition sendCallback :: "HttpEnv \<Rightarrow> Build \<Rightarrow> BuildPhase \<Rightarrow> error option \<times> HttpRequest list" where
  "sendCallback henv build phase =
    (case jsonMarshal henv (payload henv build phase) of
       Inl err \<Rightarrow> (Some err, [])
     | Inr jsonPayload \<Rightarrow>
         (case Callback (Spec build) of
               None \<Rightarrow> (Some (ErrPanic ''nil pointer dereference''), [])
             | Some cb \<Rightarrow>
                 (case NewRequestErr henv ''POST'' (URL cb) of
                    Some err \<Rightarrow> (Some err, [])
                  | None \<Rightarrow>
                      (let header = HeaderSet ''Content-Type'' ''application/json'' [];
                           header = (if AuthToken cb \<noteq> ''''
                                     then HeaderSet ''Authorization'' (''Bearer '' @ AuthToken cb) header
                                     else header);
                           req = \<lparr>Method = ''POST'', ReqURL = URL cb, Header = header,
                                  Body = jsonPayload, ClientTimeout = 10\<rparr>
                       in case clientDo henv req of
                            Inl err \<Rightarrow> (Some err, [req])
                          | Inr statusCode \<Rightarrow>
                              if statusCode < 200 \<or> statusCode \<ge> 300
                              then (Some (ErrStatusCode statusCode), [req])
                              else (None, [req])))))"

section \<open>The object store seen through the client\<close>

text \<open>
  Objects are stored under (namespace, name). The store is an external collaborator:
  a call either fails with a fault of the store (a conflict, a network error; never
  "not found"), or it acts on the stored objects. The faults of one invocation are part
  of its environment.
\<close>

type_synonym NamespacedName = "string \<times> string"

record World =
  builds :: "NamespacedName \<rightharpoonup> Build"
  jobs :: "NamespacedName \<rightharpoonup> Job"

record Env =
  getBuildFault :: "string option"
  getJobFault :: "string option"
  createFault :: "string option"
  updateFault :: "string option"
  bestEffortFault :: "string option"
  deleteFault :: "string option"
  now :: Time
  http :: HttpEnv

definition keyOf :: "Build \<Rightarrow> NamespacedName" where
  "keyOf build = (Namespace build, Name build)"

definition Get :: "string option \<Rightarrow> (NamespacedName \<rightharpoonup> 'a) \<Rightarrow> NamespacedName \<Rightarrow> error + 'a" where
  "Get fault objs key =
     (case fault of
        Some msg \<Rightarrow> Inl (ErrStore msg)
      | None \<Rightarrow> (case objs key of None \<Rightarrow> Inl ErrNotFound | Some obj \<Rightarrow> Inr obj))"

definition Create :: "string option \<Rightarrow> World \<Rightarrow> Job \<Rightarrow> error + World" where
  "Create fault w job =
     (case fault of
        Some msg \<Rightarrow> Inl (ErrStore msg)
      | None \<Rightarrow>
          (case jobs w (JobNamespace job, JobName job) of
             Some _ \<Rightarrow> Inl ErrAlreadyExists
           | None \<Rightarrow> Inr (w\<lparr>jobs := (jobs w)((JobNamespace job, JobName job) \<mapsto> job)\<rparr>)))"

text \<open>\<^verbatim>\<open>r.Status().Update\<close> writes the status of the given object over the stored one.\<close>

definition StatusUpdate :: "string option \<Rightarrow> World \<Rightarrow> Build \<Rightarrow> error + World" where
  "StatusUpdate fault w build =
     (case fault of
        Some msg \<Rightarrow> Inl (ErrStore msg)
      | None \<Rightarrow>
          (case builds w (keyOf build) of
             None \<Rightarrow> Inl ErrNotFound
           | Some stored \<Rightarrow>
               Inr (w\<lparr>builds := (builds w)(keyOf build \<mapsto> stored\<lparr>Status := Status build\<rparr>)\<rparr>)))"

definition Delete :: "string option \<Rightarrow> World \<Rightarrow> Build \<Rightarrow> error + World" where
  "Delete fault w build =
     (case fault of
        Some msg \<Rightarrow> Inl (ErrStore msg)
      | None \<Rightarrow>
          (case builds w (keyOf build) of
             None \<Rightarrow> Inl ErrNotFound
           | Some _ \<Rightarrow> Inr (w\<lparr>builds := (builds w)(keyOf build := None)\<rparr>)))"

text \<open>\<^verbatim>\<open>client.IgnoreNotFound\<close>.\<close>

definition IgnoreNotFound :: "error \<Rightarrow> error option" where
  "IgnoreNotFound err = (if IsNotFound err then None else Some err)"

section \<open>The Reconciler\<close>

record Result =
  Requeue :: bool

text \<open>The calls an invocation makes that write to the store or leave the process, each
  with the error it returned, in order.\<close>

datatype call =
    CallCreate Job
  | CallStatusUpdate Build
  | CallSendCallback BuildPhase
  | CallDelete Build

type_synonym outcome = "(Result \<times> error option) \<times> World \<times> (call \<times> error option) list"

definition errOf :: "error + 'a \<Rightarrow> error option" where
  "errOf r = (case r of Inl err \<Rightarrow> Some err | Inr _ \<Rightarrow> None)"

definition worldOr :: "World \<Rightarrow> error + World \<Rightarrow> World" where
  "worldOr w r = (case r of Inl _ \<Rightarrow> w | Inr w' \<Rightarrow> w')"

text \<open>Lines 53 to 77: the job was not found.\<close>

definition reconcileNoJob :: "Scheme \<Rightarrow> Env \<Rightarrow> World \<Rightarrow> Build \<Rightarrow> string \<Rightarrow> outcome" where
  "reconcileNoJob scheme env w build jobName =
    (if Phase (Status build) = BuildPhaseSucceeded \<or> Phase (Status build) = BuildPhaseFailed
     then ((\<lparr>Requeue = False\<rparr>, None), w, [])
     else
       case constructJob scheme build of
         Inl err \<Rightarrow> ((\<lparr>Requeue = False\<rparr>, Some err), w, [])
       | Inr job \<Rightarrow>
           (case Create (createFault env) w job of
              Inl err \<Rightarrow> ((\<lparr>Requeue = False\<rparr>, Some err), w, [(CallCreate job, Some err)])
            | Inr w1 \<Rightarrow>
                (let build = build\<lparr>Status := (Status build)\<lparr>Phase := BuildPhaseRunning,
                                                            JobRef := jobName\<rparr>\<rparr>
                 in case StatusUpdate (updateFault env) w1 build of
                      Inl err \<Rightarrow>
                        ((\<lparr>Requeue = False\<rparr>, Some err), w1,
                         [(CallCreate job, None), (CallStatusUpdate build, Some err)])
                    | Inr w2 \<Rightarrow>
                        ((\<lparr>Requeue = True\<rparr>, None), w2,
                         [(CallCreate job, None), (CallStatusUpdate build, None)]))))"

text \<open>Lines 83 to 92: the target phase and completion time computed from the job's
  counters (\<^verbatim>\<open>newPhase\<close>, \<^verbatim>\<open>completionTime\<close>).\<close>

definition syncStatus :: "Time \<Rightarrow> BuildPhase \<Rightarrow> JobStatus \<Rightarrow> BuildPhase \<times> Time option" where
  "syncStatus tnow stored js =
     (if 0 <s Succeeded js then (BuildPhaseSucceeded, JobCompletionTime js)
      else if 0 <s Failed js then (BuildPhaseFailed, Some tnow)
      else (stored, None))"

text \<open>Lines 104 to 126: callback and cleanup, after the new phase was persisted.\<close>

definition callbackAndCleanup :: "Env \<Rightarrow> World \<Rightarrow> Build \<Rightarrow> BuildPhase \<Rightarrow> outcome" where
  "callbackAndCleanup env w build newPhase =
    (if newPhase = BuildPhaseSucceeded \<or> newPhase = BuildPhaseFailed then
       (case Callback (Spec build) of
          None \<Rightarrow> ((\<lparr>Requeue = False\<rparr>, None), w, [])
        | Some _ \<Rightarrow>
            (case fst (sendCallback (http env) build newPhase) of
               Some err \<Rightarrow>
                 (let build = build\<lparr>Status := (Status build)\<lparr>CallbackStatus := ''Failed''\<rparr>\<rparr>;
                      r = StatusUpdate (bestEffortFault env) w build
                  in ((\<lparr>Requeue = False\<rparr>, None), worldOr w r,
                      [(CallSendCallback newPhase, Some err), (CallStatusUpdate build, errOf r)]))
             | None \<Rightarrow>
                 (let build = build\<lparr>Status := (Status build)\<lparr>CallbackStatus := ''Success''\<rparr>\<rparr>;
                      r = StatusUpdate (bestEffortFault env) w build;
                      w1 = worldOr w r;
                      log = [(CallSendCallback newPhase, None), (CallStatusUpdate build, errOf r)]
                  in if newPhase = BuildPhaseSucceeded then
                       (case Delete (deleteFault env) w1 build of
                          Inl err \<Rightarrow>
                            ((\<lparr>Requeue = False\<rparr>, Some err), w1, log @ [(CallDelete build, Some err)])
                        | Inr w2 \<Rightarrow>
                            ((\<lparr>Requeue = False\<rparr>, None), w2, log @ [(CallDelete build, None)]))
                     else ((\<lparr>Requeue = False\<rparr>, None), w1, log))))
     else ((\<lparr>Requeue = False\<rparr>, None), w, []))"

text \<open>Lines 83 to 129: the job was found.\<close>

definition reconcileJob :: "Env \<Rightarrow> World \<Rightarrow> Build \<Rightarrow> Job \<Rightarrow> outcome" where
  "reconcileJob env w build job =
    (let (newPhase, completionTime) = syncStatus (now env) (Phase (Status build)) (JStatus job)
     in if newPhase \<noteq> Phase (Status build) then
          (let build = build\<lparr>Status := (Status build)\<lparr>Phase := newPhase,
                                                      CompletionTime := completionTime\<rparr>\<rparr>
           in case StatusUpdate (updateFault env) w build of
                Inl err \<Rightarrow> ((\<lparr>Requeue = False\<rparr>, Some err), w, [(CallStatusUpdate build, Some err)])
              | Inr w1 \<Rightarrow>
                  (case callbackAndCleanup env w1 build newPhase of
                     (res, w2, log) \<Rightarrow> (res, w2, (CallStatusUpdate build, None) # log)))
        else ((\<lparr>Requeue = False\<rparr>, None), w, []))"

definition Reconcile :: "Scheme \<Rightarrow> Env \<Rightarrow> World \<Rightarrow> NamespacedName \<Rightarrow> outcome" where
  "Reconcile scheme env w req =
    (case Get (getBuildFault env) (builds w) req of
       Inl err \<Rightarrow> ((\<lparr>Requeue = False\<rparr>, IgnoreNotFound err), w, [])
     | Inr build \<Rightarrow>
         (let jobName = jobNameOf build
          in case Get (getJobFault env) (jobs w) (Namespace build, jobName) of
               Inl err \<Rightarrow>
                 if IsNotFound err then reconcileNoJob scheme env w build jobName
                 else ((\<lparr>Requeue = False\<rparr>, Some err), w, [])
             | Inr job \<Rightarrow> reconcileJob env w build job))"

section \<open>Repeated reconciliation\<close>

text \<open>
  Between two invocations the execution substrate may report new counters for the job of
  a Build, or the job record may disappear; the Build records are written by the
  Reconciler only. A run alternates one such event with one invocation.
\<close>

datatype event = Quiet | JobReports JobStatus | JobVanishes

definition jobKeyOf :: "NamespacedName \<Rightarrow> NamespacedName" where
  "jobKeyOf req = (fst req, ''build-'' @ snd req)"

definition substrate :: "NamespacedName \<Rightarrow> event \<Rightarrow> World \<Rightarrow> World" where
  "substrate k ev w =
     (case ev of
        Quiet \<Rightarrow> w
      | JobReports st \<Rightarrow>
          (case jobs w k of
             None \<Rightarrow> w
           | Some job \<Rightarrow> w\<lparr>jobs := (jobs w)(k \<mapsto> job\<lparr>JStatus := st\<rparr>)\<rparr>)
      | JobVanishes \<Rightarrow> w\<lparr>jobs := (jobs w)(k := None)\<rparr>)"

definition step :: "Scheme \<Rightarrow> NamespacedName \<Rightarrow> World \<Rightarrow> event \<times> Env \<Rightarrow> World" where
  "step scheme req w s =
     fst (snd (Reconcile scheme (snd s) (substrate (jobKeyOf req) (fst s) w) req))"

fun run :: "Scheme \<Rightarrow> NamespacedName \<Rightarrow> World \<Rightarrow> (event \<times> Env) list \<Rightarrow> World" where
  "run scheme req w [] = w"
| "run scheme req w (s # rest) = run scheme req (step scheme req w s) rest"

text \<open>The stored phase of the Build (\<open>None\<close> when the record is absent), initially and
  after each invocation of a run.\<close>

definition storedPhase :: "World \<Rightarrow> NamespacedName \<Rightarrow> BuildPhase option" where
  "storedPhase w req = map_option (\<lambda>b. Phase (Status b)) (builds w req)"


definition terminal :: "BuildPhase \<Rightarrow> bool" where
  "terminal p = (p = BuildPhaseSucceeded \<or> p = BuildPhaseFailed)"

section \<open>Observations on one invocation\<close>

text \<open>The target phase an invocation computes: defined when the Build and its job were
  both fetched.\<close>

definition computedPhase :: "Env \<Rightarrow> World \<Rightarrow> NamespacedName \<Rightarrow> BuildPhase option" where
  "computedPhase env w req =
     (case Get (getBuildFault env) (builds w) req of
        Inl _ \<Rightarrow> None
      | Inr build \<Rightarrow>
          (case Get (getJobFault env) (jobs w) (Namespace build, jobNameOf build) of
             Inl _ \<Rightarrow> None
           | Inr job \<Rightarrow> Some (fst (syncStatus (now env) (Phase (Status build)) (JStatus job)))))"

fun isCreate :: "call \<Rightarrow> bool" where
  "isCreate (CallCreate _) = True"
| "isCreate _ = False"

fun isDelete :: "call \<Rightarrow> bool" where
  "isDelete (CallDelete _) = True"
| "isDelete _ = False"

definition jobCreated :: "(call \<times> error option) list \<Rightarrow> bool" where
  "jobCreated log = list_ex (\<lambda>ce. isCreate (fst ce)) log"

definition deleteRequested :: "(call \<times> error option) list \<Rightarrow> bool" where
  "deleteRequested log = list_ex (\<lambda>ce. isDelete (fst ce)) log"

text \<open>
  The Build as line 99 persisted it, which is the Build a callback dispatch of the
  invocation is made for: defined when the Build and its job were both fetched, the
  target phase differs from the stored one and the status update of line 99 succeeded.
\<close>

definition persisted :: "Env \<Rightarrow> World \<Rightarrow> NamespacedName \<Rightarrow> Build option" where
  "persisted env w req =
     (case Get (getBuildFault env) (builds w) req of
        Inl _ \<Rightarrow> None
      | Inr build \<Rightarrow>
          (case Get (getJobFault env) (jobs w) (Namespace build, jobNameOf build) of
             Inl _ \<Rightarrow> None
           | Inr job \<Rightarrow>
               (let (newPhase, completionTime) =
                      syncStatus (now env) (Phase (Status build)) (JStatus job);
                    build' = build\<lparr>Status := (Status build)\<lparr>Phase := newPhase,
                                                           CompletionTime := completionTime\<rparr>\<rparr>
                in if newPhase \<noteq> Phase (Status build)
                      \<and> \<not> isl (StatusUpdate (updateFault env) w build')
                   then Some build' else None)))"




text \<open>One attempt handed to \<^verbatim>\<open>client.Do\<close> failed: a transport error, or a status code
  outside [200,300).\<close>

definition attemptFailed :: "HttpEnv \<Rightarrow> HttpRequest \<Rightarrow> bool" where
  "attemptFailed henv r =
     (case clientDo henv r of Inl _ \<Rightarrow> True | Inr code \<Rightarrow> code < 200 \<or> 300 \<le> code)"

section \<open>Example objects\<close>

definition exScheme :: Scheme where
  "exScheme = Some (''ops.kairos.io/v1alpha1'', ''Build'')"

definition exSpec :: BuildSpec where
  "exSpec = \<lparr>ContextUrl = ''https://git.example.com/app.git'', Revision = '''',
             Dockerfile = '''', OutputImage = ''registry.example.com/app:1'',
             PushSecret = '''', Callback = None\<rparr>"

definition exCallback :: CallbackSpec where
  "exCallback = \<lparr>URL = ''https://hooks.example.com/done'', AuthToken = ''s3cr3t''\<rparr>"

definition exBuild :: Build where
  "exBuild = \<lparr>Name = ''app'', Namespace = ''ci'', UID = ''uid-1'', Spec = exSpec,
              Status = \<lparr>Phase = '''', JobRef = '''', CallbackStatus = '''',
                        CompletionTime = None\<rparr>\<rparr>"

definition exBuildCb :: Build where
  "exBuildCb = exBuild\<lparr>Spec := exSpec\<lparr>Callback := Some exCallback\<rparr>\<rparr>"

definition exReq :: NamespacedName where
  "exReq = (''ci'', ''app'')"

definition exWorld :: World where
  "exWorld = \<lparr>builds = [exReq \<mapsto> exBuild], jobs = Map.empty\<rparr>"

definition exWorldCb :: World where
  "exWorldCb = \<lparr>builds = [exReq \<mapsto> exBuildCb], jobs = Map.empty\<rparr>"

text \<open>An HTTP environment in which every call succeeds and the endpoint answers 200, and
  one in which \<^verbatim>\<open>http.NewRequest\<close> rejects a URL whose host name contains a space
  (as Go's URL parser does).\<close>

definition exHttp :: HttpEnv where
  "exHttp = \<lparr>jsonMarshal = (\<lambda>payload. Inr ''{}''), NewRequestErr = (\<lambda>m u. None),
             clientDo = (\<lambda>req. Inr 200), callbackNow = 200\<rparr>"

definition exHttpStrict :: HttpEnv where
  "exHttpStrict = exHttp\<lparr>NewRequestErr :=
     (\<lambda>m u. if u = ''https://hooks example.com/done''
            then Some (ErrNewRequest ''invalid character in host name'') else None)\<rparr>"

definition exHttpDown :: HttpEnv where
  "exHttpDown = exHttp\<lparr>clientDo := (\<lambda>req. Inl (ErrTransport ''context deadline exceeded''))\<rparr>"

definition exEnv :: Env where
  "exEnv = \<lparr>getBuildFault = None, getJobFault = None, createFault = None,
            updateFault = None, bestEffortFault = None, deleteFault = None,
            now = 200, http = exHttp\<rparr>"

definition jobSucceeded :: JobStatus where
  "jobSucceeded = \<lparr>Succeeded = 1, Failed = 0, JobCompletionTime = Some 100\<rparr>"

definition jobSucceededNoTime :: JobStatus where
  "jobSucceededNoTime = \<lparr>Succeeded = 1, Failed = 0, JobCompletionTime = None\<rparr>"

definition jobFailed :: JobStatus where
  "jobFailed = \<lparr>Succeeded = 0, Failed = 1, JobCompletionTime = None\<rparr>"

definition jobFailedAt :: JobStatus where
  "jobFailedAt = \<lparr>Succeeded = 0, Failed = 1, JobCompletionTime = Some 100\<rparr>"

definition jobActive :: JobStatus where
  "jobActive = \<lparr>Succeeded = 0, Failed = 0, JobCompletionTime = None\<rparr>"

text \<open>More example objects: a callback URL with a space in its host name, stores that refuse a
  delete or cannot reach the callback endpoint, and worlds reached by the Reconciler.\<close>

definition exBuildBadUrl :: Build where
  "exBuildBadUrl = exBuild\<lparr>Spec := exSpec\<lparr>Callback :=
     Some \<lparr>URL = ''https://hooks example.com/done'', AuthToken = ''''\<rparr>\<rparr>\<rparr>"

definition exEnvDeleteRefused :: Env where
  "exEnvDeleteRefused = exEnv\<lparr>deleteFault := Some ''etcdserver: request timed out''\<rparr>"

definition exEnvCallbackDown :: Env where
  "exEnvCallbackDown = exEnv\<lparr>http := exHttpDown\<rparr>"

definition exWorldCbJobDone :: World where
  "exWorldCbJobDone =
     substrate (jobKeyOf exReq) (JobReports jobSucceeded) (step exScheme exReq exWorldCb (Quiet, exEnv))"

definition exWorldCrashed :: World where
  "exWorldCrashed = exWorldCbJobDone\<lparr>builds := [exReq \<mapsto>
     exBuildCb\<lparr>Status := \<lparr>Phase = BuildPhaseSucceeded, JobRef = ''build-app'',
                           CallbackStatus = '''', CompletionTime = Some 100\<rparr>\<rparr>]\<rparr>"

definition exBuildFailed :: Build where
  "exBuildFailed = exBuild\<lparr>Status := \<lparr>Phase = BuildPhaseFailed, JobRef = ''build-app'',
                                     CallbackStatus = '''', CompletionTime = Some 150\<rparr>\<rparr>"

definition exWorldOrphan :: World where
  "exWorldOrphan = \<lparr>builds = [exReq \<mapsto> exBuildFailed], jobs = Map.empty\<rparr>"

definition exBuildCbRunning :: Build where
  "exBuildCbRunning = exBuildCb\<lparr>Status := \<lparr>Phase = BuildPhaseRunning, JobRef = ''build-app'',
                                           CallbackStatus = '''', CompletionTime = None\<rparr>\<rparr>"

definition exBuildCbSucceeded :: Build where
  "exBuildCbSucceeded = exBuildCb\<lparr>Status := \<lparr>Phase = BuildPhaseSucceeded, JobRef = ''build-app'',
                                             CallbackStatus = '''', CompletionTime = Some 100\<rparr>\<rparr>"

text \<open>A store that refuses the first status update of an invocation with a conflict.\<close>

definition exEnvUpdateConflict :: Env where
  "exEnvUpdateConflict = exEnv\<lparr>updateFault := Some ''the object has been modified''\<rparr>"

section \<open>Auxiliary facts\<close>

lemmas phase_defs =
  BuildPhasePending_def BuildPhaseRunning_def BuildPhaseSucceeded_def BuildPhaseFailed_def

lemmas store_defs =
  Get_def Create_def StatusUpdate_def Delete_def keyOf_def IgnoreNotFound_def errOf_def worldOr_def

lemmas reconcile_defs =
  Reconcile_def reconcileNoJob_def reconcileJob_def callbackAndCleanup_def syncStatus_def
  jobNameOf_def

lemmas log_defs = deleteRequested_def jobCreated_def

lemmas run_defs = step_def substrate_def jobKeyOf_def storedPhase_def word_sless_alt

lemmas ex_defs =
  exScheme_def exSpec_def exCallback_def exBuild_def exBuildCb_def exReq_def exWorld_def
  exWorldCb_def exHttp_def exHttpStrict_def exHttpDown_def exEnv_def jobSucceeded_def
  jobSucceededNoTime_def jobFailed_def jobFailedAt_def jobActive_def exBuildBadUrl_def
  exEnvDeleteRefused_def exEnvCallbackDown_def exWorldCbJobDone_def exWorldCrashed_def
  exBuildFailed_def exWorldOrphan_def exBuildCbRunning_def exBuildCbSucceeded_def
  exEnvUpdateConflict_def

lemmas eval_defs =
  run_defs reconcile_defs store_defs ex_defs phase_defs constructJob_def
  SetControllerReference_def sendCallback_def payload_def HeaderSet_def computedPhase_def
  log_defs Let_def

lemma outcome_collapse: "(r :: outcome) = (fst r, fst (snd r), snd (snd r))"
  by simp

subsection \<open>The store\<close>

lemma Get_Inr: "Get f m k = Inr v \<Longrightarrow> m k = Some v"
  by (auto simp: Get_def split: option.splits)

lemma Get_NotFound: "Get f m k = Inl e \<Longrightarrow> IsNotFound e \<Longrightarrow> m k = None"
  by (auto simp: Get_def split: option.splits)

lemma keyOf_Status [simp]: "keyOf (b\<lparr>Status := s\<rparr>) = keyOf b"
  by (simp add: keyOf_def)

lemma StatusUpdate_jobs: "StatusUpdate f w b = Inr w' \<Longrightarrow> jobs w' = jobs w"
  by (auto simp: StatusUpdate_def split: option.splits)

lemma Delete_jobs: "Delete f w b = Inr w' \<Longrightarrow> jobs w' = jobs w"
  by (auto simp: Delete_def split: option.splits)

lemma worldOr_StatusUpdate_jobs: "jobs (worldOr w (StatusUpdate f w b)) = jobs w"
  by (auto simp: worldOr_def dest: StatusUpdate_jobs split: sum.splits)






lemma storedPhase_substrate: "storedPhase (substrate k ev w) req = storedPhase w req"
  by (auto simp: substrate_def storedPhase_def split: event.splits option.splits)


subsection \<open>Jobs are written by the no-job branch only\<close>

lemma reconcileNoJob_terminal:
  "terminal (Phase (Status b)) \<Longrightarrow>
   reconcileNoJob scheme env w b n = ((\<lparr>Requeue = False\<rparr>, None), w, [])"
  by (simp add: reconcileNoJob_def terminal_def)

lemma callbackAndCleanup_jobs:
  "callbackAndCleanup env w b p = (res, w', log) \<Longrightarrow> jobs w' = jobs w \<and> \<not> jobCreated log"
  by (auto simp: callbackAndCleanup_def Let_def jobCreated_def worldOr_StatusUpdate_jobs
       dest!: Delete_jobs split: if_splits option.splits sum.splits)

lemma reconcileJob_jobs:
  "reconcileJob env w b j = (res, w', log) \<Longrightarrow> jobs w' = jobs w \<and> \<not> jobCreated log"
  by (auto simp: reconcileJob_def Let_def jobCreated_def
       dest!: StatusUpdate_jobs callbackAndCleanup_jobs
       split: if_splits option.splits sum.splits prod.splits)

subsection \<open>Callback and cleanup\<close>

lemma StatusUpdate_stored:
  "builds w (keyOf b) = Some stored \<Longrightarrow>
   StatusUpdate f w b = (case f of Some msg \<Rightarrow> Inl (ErrStore msg)
      | None \<Rightarrow> Inr (w\<lparr>builds := (builds w)(keyOf b \<mapsto> stored\<lparr>Status := Status b\<rparr>)\<rparr>))"
  by (simp add: StatusUpdate_def split: option.splits)




subsection \<open>Phase changes of one invocation\<close>

lemma syncStatus_terminal:
  "fst (syncStatus t p js) \<noteq> p \<Longrightarrow> terminal (fst (syncStatus t p js))"
  by (auto simp: syncStatus_def terminal_def split: if_splits)






section \<open>The claims\<close>

subsection \<open>C1: the cleanup policy\<close>




subsection \<open>C2: phase transitions over a run\<close>




subsection \<open>C3: no job for a finished Build\<close>

text \<open>
  C3. When the lookup finds no job and the stored phase is Succeeded or Failed, the
  invocation stops: it makes no call (so no job is created and the Build is not
  modified), leaves the store as it was and returns no error. And whenever an invocation
  issues a job creation, or the stored jobs change, no job existed for the Build and its
  stored phase was not terminal.
\<close>

theorem terminal_without_job_stops:
  "(Get (getBuildFault env) (builds w) req = Inr build
      \<and> Get (getJobFault env) (jobs w) (Namespace build, jobNameOf build) = Inl ErrNotFound
      \<and> terminal (Phase (Status build))
      \<longrightarrow> Reconcile scheme env w req = ((\<lparr>Requeue = False\<rparr>, None), w, []))
   \<and> (jobCreated (snd (snd (Reconcile scheme env w req)))
        \<or> jobs (fst (snd (Reconcile scheme env w req))) \<noteq> jobs w
      \<longrightarrow> (\<exists>b. builds w req = Some b \<and> jobs w (Namespace b, jobNameOf b) = None
               \<and> \<not> terminal (Phase (Status b))))"
proof (intro conjI impI)
  assume "Get (getBuildFault env) (builds w) req = Inr build
      \<and> Get (getJobFault env) (jobs w) (Namespace build, jobNameOf build) = Inl ErrNotFound
      \<and> terminal (Phase (Status build))"
  then show "Reconcile scheme env w req = ((\<lparr>Requeue = False\<rparr>, None), w, [])"
    by (simp add: Reconcile_def reconcileNoJob_terminal Let_def)
next
  assume a: "jobCreated (snd (snd (Reconcile scheme env w req)))
        \<or> jobs (fst (snd (Reconcile scheme env w req))) \<noteq> jobs w"
  show "\<exists>b. builds w req = Some b \<and> jobs w (Namespace b, jobNameOf b) = None
               \<and> \<not> terminal (Phase (Status b))"
  proof (cases "Get (getBuildFault env) (builds w) req")
    case (Inl e)
    with a show ?thesis by (simp add: Reconcile_def jobCreated_def)
  next
    case g: (Inr b)
    show ?thesis
    proof (cases "Get (getJobFault env) (jobs w) (Namespace b, jobNameOf b)")
      case (Inr job)
      obtain res w' log where r: "reconcileJob env w b job = (res, w', log)"
        by (cases "reconcileJob env w b job") auto
      from reconcileJob_jobs[OF r] a Inr g r
      show ?thesis by (simp add: Reconcile_def Let_def)
    next
      case (Inl e)
      show ?thesis
      proof (cases "IsNotFound e \<and> \<not> terminal (Phase (Status b))")
        case True
        with Get_NotFound[OF Inl] Get_Inr[OF g]
        show ?thesis by auto
      next
        case False
        with a Inl g show ?thesis
          by (cases "IsNotFound e")
             (auto simp: Reconcile_def Let_def jobCreated_def reconcileNoJob_terminal)
      qed
    qed
  qed
qed

text \<open>A Build stored as Failed whose job record is gone is left alone; a fresh Build
  gets its job.\<close>

theorem terminal_without_job_stops_witness:
  "Get (getBuildFault exEnv) (builds exWorldOrphan) exReq = Inr exBuildFailed
   \<and> Get (getJobFault exEnv) (jobs exWorldOrphan)
        (Namespace exBuildFailed, jobNameOf exBuildFailed) = Inl ErrNotFound
   \<and> terminal (Phase (Status exBuildFailed))
   \<and> Reconcile exScheme exEnv exWorldOrphan exReq = ((\<lparr>Requeue = False\<rparr>, None), exWorldOrphan, [])
   \<and> jobCreated (snd (snd (Reconcile exScheme exEnv exWorld exReq)))
   \<and> (\<exists>b. builds exWorld exReq = Some b \<and> jobs exWorld (Namespace b, jobNameOf b) = None
          \<and> \<not> terminal (Phase (Status b)))"
proof -
  have g: "Get (getBuildFault exEnv) (builds exWorldOrphan) exReq = Inr exBuildFailed"
    by (simp add: eval_defs)
  have j: "Get (getJobFault exEnv) (jobs exWorldOrphan)
        (Namespace exBuildFailed, jobNameOf exBuildFailed) = Inl ErrNotFound"
    by (simp add: eval_defs)
  have t: "terminal (Phase (Status exBuildFailed))"
    by (simp add: terminal_def exBuildFailed_def)
  have c: "jobCreated (snd (snd (Reconcile exScheme exEnv exWorld exReq)))"
    by (simp add: eval_defs)
  from terminal_without_job_stops[of exEnv exWorldOrphan exReq exBuildFailed exScheme]
    terminal_without_job_stops[of exEnv exWorld exReq exBuildFailed exScheme] g j t c
  show ?thesis by blast
qed

subsection \<open>C4: completion time of a succeeded job\<close>

text \<open>
  C4 does not hold of the code. A fresh Build is reconciled (its job is created), the job
  then reports succeeded = 1 without a completion time, and the next invocation stores
  the phase Succeeded with no completion time: the branch for a succeeded job copies the
  job's completion time as it is, while the branch for a failed job always stores a time.
\<close>

theorem succeeded_job_without_time:
  "map_option Status (builds (run exScheme exReq exWorld
       [(Quiet, exEnv), (JobReports jobSucceededNoTime, exEnv)]) exReq)
   = Some \<lparr>Phase = ''Succeeded'', JobRef = ''build-app'', CallbackStatus = '''',
           CompletionTime = None\<rparr>"
  by (simp add: eval_defs)

subsection \<open>C5: completion time of a failed job\<close>

text \<open>
  C5 does not hold of the code. The job reports succeeded = 0, failed = 1 and the
  completion time 100; the invocation runs at time 200 and stores the completion time
  200: the branch for a failed job never reads the job's completion time.
\<close>

theorem failed_job_ignores_reported_time:
  "JobCompletionTime jobFailedAt = Some 100
   \<and> now exEnv = 200
   \<and> syncStatus (now exEnv) BuildPhaseRunning jobFailedAt = (BuildPhaseFailed, Some 200)
   \<and> map_option Status (builds (run exScheme exReq exWorld
          [(Quiet, exEnv), (JobReports jobFailedAt, exEnv)]) exReq)
      = Some \<lparr>Phase = ''Failed'', JobRef = ''build-app'', CallbackStatus = '''',
              CompletionTime = Some 200\<rparr>"
  by (simp add: eval_defs)

subsection \<open>C6: field defaults in the constructed job\<close>

text \<open>
  C6 does not hold of the code. For a spec with empty revision and empty Dockerfile path
  the build stage runs \<^verbatim>\<open>buildah bud -f Dockerfile\<close> (the Dockerfile default is
  applied), but the fetch stage is \<^verbatim>\<open>git clone <contextUrl> /workspace\<close>: the
  defaulted revision is computed and never used, and the job is the same as the one
  constructed for any other revision.
\<close>

theorem default_revision_not_in_job:
  "case constructJob exScheme exBuild of
     Inl _ \<Rightarrow> False
   | Inr job \<Rightarrow>
       map Command (InitContainers (Template job)) =
         [ [''git'', ''clone'', ''https://git.example.com/app.git'', ''/workspace''] ]
     \<and> map Command (Containers (Template job)) =
         [ [''/bin/sh'', ''-c'',
           buildScript ''registry.example.com/app:1'' ''https://git.example.com/app.git''
             ''Dockerfile''] ]
     \<and> constructJob exScheme (exBuild\<lparr>Spec := exSpec\<lparr>Revision := ''release-2''\<rparr>\<rparr>) = Inr job"
  by (simp add: constructJob_def Let_def jobNameOf_def SetControllerReference_def ex_defs)

subsection \<open>C7: nothing happens when the target phase is the stored phase\<close>

text \<open>
  C7. If an invocation fetches the Build and its job and the target phase computed from
  the job's counters equals the stored phase, it makes no call at all (no status update,
  no callback dispatch, no deletion), leaves the store unchanged and returns no error.
\<close>

theorem same_phase_is_noop:
  "computedPhase env w req = Some p \<Longrightarrow> storedPhase w req = Some p \<Longrightarrow>
   Reconcile scheme env w req = ((\<lparr>Requeue = False\<rparr>, None), w, [])"
  by (auto simp: computedPhase_def storedPhase_def Reconcile_def reconcileJob_def Get_def Let_def
       split: option.splits sum.splits prod.splits)

text \<open>After a crash between persisting Succeeded and dispatching the callback: the
  callback status is still unset, the job still reports success, and the next
  invocation does nothing.\<close>

theorem same_phase_is_noop_witness:
  "computedPhase exEnv exWorldCrashed exReq = Some BuildPhaseSucceeded
   \<and> storedPhase exWorldCrashed exReq = Some BuildPhaseSucceeded
   \<and> map_option (\<lambda>b. CallbackStatus (Status b)) (builds exWorldCrashed exReq) = Some ''''
   \<and> Reconcile exScheme exEnv exWorldCrashed exReq = ((\<lparr>Requeue = False\<rparr>, None), exWorldCrashed, [])"
proof -
  have c: "computedPhase exEnv exWorldCrashed exReq = Some BuildPhaseSucceeded"
    by (simp add: eval_defs)
  have s: "storedPhase exWorldCrashed exReq = Some BuildPhaseSucceeded"
    by (simp add: eval_defs)
  have u: "map_option (\<lambda>b. CallbackStatus (Status b)) (builds exWorldCrashed exReq) = Some ''''"
    by (simp add: eval_defs)
  from same_phase_is_noop[OF c s, of exScheme] c s u show ?thesis by simp
qed
subsection \<open>C8: the callback dispatcher\<close>

text \<open>
  C8, as amended. With a callback configured, the dispatcher returns failure exactly when
  the payload cannot be encoded or the request cannot be constructed (then no attempt is
  made), or the one attempt fails: the HTTP request errors (a timeout included) or the
  response status lies outside [200,300). It makes at most one attempt per invocation,
  and exactly one whenever the request was constructed; the attempt is a POST to the
  configured URL under a 10-second timeout, and it carries the header
  \<^verbatim>\<open>Authorization: Bearer <token>\<close> exactly when the auth token is not empty.
\<close>

theorem sendCallback_outcome:
  assumes cb: "Callback (Spec build) = Some cb"
    and s: "sendCallback henv build phase = (err, reqs)"
  shows "(err \<noteq> None \<longleftrightarrow>
            isl (jsonMarshal henv (payload henv build phase))
          \<or> NewRequestErr henv ''POST'' (URL cb) \<noteq> None
          \<or> (\<exists>r\<in>set reqs. attemptFailed henv r))
       \<and> length reqs \<le> 1
       \<and> (length reqs = 1 \<longleftrightarrow>
            \<not> isl (jsonMarshal henv (payload henv build phase))
          \<and> NewRequestErr henv ''POST'' (URL cb) = None)
       \<and> (\<forall>r\<in>set reqs. ClientTimeout r = 10 \<and> Method r = ''POST'' \<and> ReqURL r = URL cb
            \<and> map_of (Header r) ''Authorization'' =
                (if AuthToken cb \<noteq> '''' then Some (''Bearer '' @ AuthToken cb) else None))"
proof (cases "jsonMarshal henv (payload henv build phase)")
  case (Inl e)
  with s show ?thesis by (auto simp: sendCallback_def)
next
  case m: (Inr body)
  show ?thesis
  proof (cases "NewRequestErr henv ''POST'' (URL cb)")
    case (Some e)
    with s cb m have "err = Some e" "reqs = []" by (simp_all add: sendCallback_def)
    with Some m show ?thesis by simp
  next
    case None
    with s cb m show ?thesis
      by (auto simp: sendCallback_def Let_def HeaderSet_def attemptFailed_def
          split: sum.splits if_splits)
  qed
qed

text \<open>An endpoint that answers 200: one attempt, with the bearer token, and success.\<close>

theorem sendCallback_outcome_witness:
  "Callback (Spec exBuildCb) = Some exCallback
   \<and> fst (sendCallback exHttp exBuildCb BuildPhaseSucceeded) = None
   \<and> map ClientTimeout (snd (sendCallback exHttp exBuildCb BuildPhaseSucceeded)) = [10]
   \<and> map (\<lambda>r. map_of (Header r) ''Authorization'')
        (snd (sendCallback exHttp exBuildCb BuildPhaseSucceeded)) = [Some ''Bearer s3cr3t'']"
proof -
  let ?S = "sendCallback exHttp exBuildCb BuildPhaseSucceeded"
  have cb: "Callback (Spec exBuildCb) = Some exCallback"
    by (simp add: ex_defs)
  have s: "?S = (fst ?S, snd ?S)"
    by simp
  have m: "\<not> isl (jsonMarshal exHttp (payload exHttp exBuildCb BuildPhaseSucceeded))"
    by (simp add: exHttp_def)
  have n: "NewRequestErr exHttp ''POST'' (URL exCallback) = None"
    by (simp add: exHttp_def)
  have a: "\<forall>r. \<not> attemptFailed exHttp r"
    by (simp add: attemptFailed_def exHttp_def)
  have t: "AuthToken exCallback = ''s3cr3t''"
    by (simp add: exCallback_def)
  from sendCallback_outcome[OF cb s] m n
  have l: "length (snd ?S) = 1" by blast
  then obtain r where r: "snd ?S = [r]"
    by (cases "snd ?S") auto
  from sendCallback_outcome[OF cb s] cb m n a t r show ?thesis
    by auto
qed

text \<open>
  The claim as stated fails for a callback URL that \<^verbatim>\<open>http.NewRequest\<close> rejects (here
  one with a space in the host name): the dispatcher returns failure although no HTTP
  request was made, and the number of attempts is zero, not one.
\<close>

theorem sendCallback_bad_url_counterexample:
  "sendCallback exHttpStrict exBuildBadUrl BuildPhaseSucceeded =
     (Some (ErrNewRequest ''invalid character in host name''), [])"
  by (simp add: eval_defs)

subsection \<open>C9: a failed callback is recorded, not escalated\<close>

text \<open>
  C9. Whenever an invocation dispatches the callback (it has persisted the new phase of a
  Build with a callback configured) and the dispatcher returns an error, the invocation
  returns no error and asks for no requeue; after the dispatch it makes one more call, the
  best-effort status update that sets callbackStatus to "Failed", and no delete; the
  record is retained with the persisted phase, with callbackStatus "Failed" when that
  update went through and as persisted when it failed; the jobs are untouched.
\<close>

theorem callback_failure_not_escalated:
  assumes b: "builds w req = Some build" and k: "keyOf build = req"
    and r: "Reconcile scheme env w req = (res, w', log)"
    and p: "persisted env w req = Some build'"
    and cb: "Callback (Spec build) \<noteq> None"
    and f: "fst (sendCallback (http env) build' (Phase (Status build'))) = Some err"
  shows "res = (\<lparr>Requeue = False\<rparr>, None)
     \<and> log = [(CallStatusUpdate build', None),
              (CallSendCallback (Phase (Status build')), Some err),
              (CallStatusUpdate (build'\<lparr>Status := (Status build')\<lparr>CallbackStatus := ''Failed''\<rparr>\<rparr>),
               map_option ErrStore (bestEffortFault env))]
     \<and> builds w' = (builds w)(req \<mapsto>
           (if bestEffortFault env = None
            then build'\<lparr>Status := (Status build')\<lparr>CallbackStatus := ''Failed''\<rparr>\<rparr>
            else build'))
     \<and> jobs w' = jobs w"
proof -
  from p have g: "Get (getBuildFault env) (builds w) req = Inr build"
    using b by (auto simp: persisted_def Get_def split: option.splits sum.splits)
  from p g obtain j
    where j: "Get (getJobFault env) (jobs w) (Namespace build, jobNameOf build) = Inr j"
    by (auto simp: persisted_def split: sum.splits)
  obtain q ct where sy: "syncStatus (now env) (Phase (Status build)) (JStatus j) = (q, ct)"
    by (cases "syncStatus (now env) (Phase (Status build)) (JStatus j)") auto
  let ?b = "build\<lparr>Status := (Status build)\<lparr>Phase := q, CompletionTime := ct\<rparr>\<rparr>"
  from b k have ks: "builds w (keyOf ?b) = Some build" by simp
  from p g j sy
  have pe: "q \<noteq> Phase (Status build)" "\<not> isl (StatusUpdate (updateFault env) w ?b)"
      "build' = ?b"
    by (auto simp: persisted_def Let_def split: if_splits)
  from pe(2) ks have u: "updateFault env = None"
    by (cases "updateFault env") (simp_all add: StatusUpdate_stored)
  have t: "q = BuildPhaseSucceeded \<or> q = BuildPhaseFailed"
    using syncStatus_terminal[of "now env" "Phase (Status build)" "JStatus j"] sy pe(1)
    by (simp add: terminal_def)
  have ph: "Phase (Status build') = q" using pe(3) by simp
  from f ph pe(3) have f': "fst (sendCallback (http env) ?b q) = Some err" by simp
  from cb obtain c where c: "Callback (Spec build) = Some c" by auto
  have "Reconcile scheme env w req = reconcileJob env w build j"
    using g j by (simp add: Reconcile_def Let_def)
  with r have rj: "reconcileJob env w build j = (res, w', log)" by simp
  show ?thesis
    using rj sy pe(1) u t f' c ks k b pe(3)
    by (cases "bestEffortFault env")
       (auto simp: reconcileJob_def callbackAndCleanup_def StatusUpdate_def worldOr_def errOf_def
          Let_def keyOf_def)
qed

text \<open>The job succeeded and the callback endpoint times out: the Build is kept as
  Succeeded with callbackStatus "Failed", and the invocation returns no error.\<close>

theorem callback_failure_not_escalated_witness:
  "builds exWorldCbJobDone exReq = Some exBuildCbRunning
   \<and> keyOf exBuildCbRunning = exReq
   \<and> persisted exEnvCallbackDown exWorldCbJobDone exReq = Some exBuildCbSucceeded
   \<and> Callback (Spec exBuildCbRunning) \<noteq> None
   \<and> fst (sendCallback (http exEnvCallbackDown) exBuildCbSucceeded
            (Phase (Status exBuildCbSucceeded)))
       = Some (ErrTransport ''context deadline exceeded'')
   \<and> fst (Reconcile exScheme exEnvCallbackDown exWorldCbJobDone exReq) = (\<lparr>Requeue = False\<rparr>, None)
   \<and> map_option Status
       (builds (fst (snd (Reconcile exScheme exEnvCallbackDown exWorldCbJobDone exReq))) exReq)
       = Some \<lparr>Phase = ''Succeeded'', JobRef = ''build-app'', CallbackStatus = ''Failed'',
               CompletionTime = Some 100\<rparr>"
proof -
  let ?R = "Reconcile exScheme exEnvCallbackDown exWorldCbJobDone exReq"
  have b: "builds exWorldCbJobDone exReq = Some exBuildCbRunning"
    by (simp add: eval_defs)
  have k: "keyOf exBuildCbRunning = exReq"
    by (simp add: eval_defs)
  have p: "persisted exEnvCallbackDown exWorldCbJobDone exReq = Some exBuildCbSucceeded"
    by (simp add: eval_defs persisted_def)
  have cb: "Callback (Spec exBuildCbRunning) \<noteq> None"
    by (simp add: eval_defs)
  have f: "fst (sendCallback (http exEnvCallbackDown) exBuildCbSucceeded
            (Phase (Status exBuildCbSucceeded)))
       = Some (ErrTransport ''context deadline exceeded'')"
    by (simp add: eval_defs)
  have e: "bestEffortFault exEnvCallbackDown = None"
    by (simp add: exEnvCallbackDown_def exEnv_def)
  have s: "Status (exBuildCbSucceeded\<lparr>Status := (Status exBuildCbSucceeded)\<lparr>CallbackStatus := ''Failed''\<rparr>\<rparr>)
      = \<lparr>Phase = ''Succeeded'', JobRef = ''build-app'', CallbackStatus = ''Failed'',
         CompletionTime = Some 100\<rparr>"
    by (simp add: exBuildCbSucceeded_def phase_defs)
  from callback_failure_not_escalated[OF b k outcome_collapse [of ?R] p cb f] b k p cb f e s
  show ?thesis by simp
qed

subsection \<open>C10: the revision does not reach the job\<close>

text \<open>
  C10. Two Builds that differ only in the Revision field of their spec get identical
  results from the Job Builder, and the fetch stage of a constructed job is exactly
  \<^verbatim>\<open>git clone <contextUrl> /workspace\<close>.
\<close>

theorem constructJob_ignores_Revision:
  "constructJob scheme (build\<lparr>Spec := spec\<lparr>Revision := ra\<rparr>\<rparr>) =
     constructJob scheme (build\<lparr>Spec := spec\<lparr>Revision := rb\<rparr>\<rparr>)
   \<and> (constructJob scheme (build\<lparr>Spec := spec\<rparr>) = Inr job \<longrightarrow>
        map Command (InitContainers (Template job)) =
          [ [''git'', ''clone'', ContextUrl spec, ''/workspace''] ])"
proof
  show "constructJob scheme (build\<lparr>Spec := spec\<lparr>Revision := ra\<rparr>\<rparr>) =
     constructJob scheme (build\<lparr>Spec := spec\<lparr>Revision := rb\<rparr>\<rparr>)"
    by (cases scheme)
       (auto simp: constructJob_def Let_def jobNameOf_def SetControllerReference_def)
  show "constructJob scheme (build\<lparr>Spec := spec\<rparr>) = Inr job \<longrightarrow>
        map Command (InitContainers (Template job)) =
          [ [''git'', ''clone'', ContextUrl spec, ''/workspace''] ]"
    by (auto simp: constructJob_def Let_def jobNameOf_def SetControllerReference_def
        split: option.splits if_splits prod.splits)
qed

theorem constructJob_ignores_Revision_witness:
  "constructJob exScheme (exBuild\<lparr>Spec := exSpec\<lparr>Revision := ''main''\<rparr>\<rparr>) =
     constructJob exScheme (exBuild\<lparr>Spec := exSpec\<lparr>Revision := ''v1.4.2''\<rparr>\<rparr>)
   \<and> (\<exists>job. constructJob exScheme (exBuild\<lparr>Spec := exSpec\<rparr>) = Inr job
        \<and> map Command (InitContainers (Template job)) =
            [ [''git'', ''clone'', ''https://git.example.com/app.git'', ''/workspace''] ])"
proof -
  obtain job where j: "constructJob exScheme (exBuild\<lparr>Spec := exSpec\<rparr>) = Inr job"
    by (simp add: constructJob_def Let_def jobNameOf_def SetControllerReference_def ex_defs)
  have u: "ContextUrl exSpec = ''https://git.example.com/app.git''"
    by (simp add: exSpec_def)
  from constructJob_ignores_Revision[where scheme = exScheme and build = exBuild
      and spec = exSpec and ra = "''main''" and rb = "''v1.4.2''" and job = job] j u
  show ?thesis by auto
qed

end
